theory Spec2Isabelle
  imports Main "HOL-Library.AList"
begin

section \<open>Python values the code handles\<close>

text \<open>
  A Python \<open>str\<close> is modelled as a \<open>string\<close>, one \<open>char\<close> per code point (code points
  below 256). \<open>isspace\<close> lists the code points of that range that \<open>str.strip()\<close>
  removes: tab, line feed, vertical tab, form feed, carriage return, the four
  separators 0x1C to 0x1F, space, NEL (0x85) and the no-break space (0xA0).
\<close>

definition isspace :: "char \<Rightarrow> bool" where
  "isspace c = (c \<in> set [CHR 0x09, CHR 0x0A, CHR 0x0B, CHR 0x0C, CHR 0x0D,
                           CHR 0x1C, CHR 0x1D, CHR 0x1E, CHR 0x1F, CHR 0x20,
                           CHR 0x85, CHR 0xA0])"

text \<open>\<open>s.strip()\<close>: leading and trailing whitespace removed.\<close>

definition py_strip :: "string \<Rightarrow> string" where
  "py_strip s = rev (dropWhile isspace (rev (dropWhile isspace s)))"

text \<open>
  \<open>s.split(sep)\<close> for a one-character separator: every occurrence cuts, empty
  pieces are kept, and the empty string gives one empty piece.
\<close>

fun py_split :: "char \<Rightarrow> string \<Rightarrow> string list" where
  "py_split sep [] = [[]]"
| "py_split sep (c # cs) =
     (if c = sep then [] # py_split sep cs
      else (case py_split sep cs of
              [] \<Rightarrow> [[c]]
            | w # ws \<Rightarrow> (c # w) # ws))"

text \<open>\<open>sep.join(xs)\<close> for a one-character separator.\<close>

fun py_join :: "char \<Rightarrow> string list \<Rightarrow> string" where
  "py_join sep [] = []"
| "py_join sep [x] = x"
| "py_join sep (x # y # ys) = x @ sep # py_join sep (y # ys)"

text \<open>\<open>str(b).lower()\<close> for a Boolean \<open>b\<close>.\<close>

definition str_lower_bool :: "bool \<Rightarrow> string" where
  "str_lower_bool b = (if b then ''true'' else ''false'')"

text \<open>What an f-string prints for a thread id: the string itself, or \<open>None\<close>.\<close>

definition format_id :: "string option \<Rightarrow> string" where
  "format_id thread_id = (case thread_id of None \<Rightarrow> ''None'' | Some p \<Rightarrow> p)"

text \<open>
  The values that can be handed to \<open>__parseInput\<close>. Its annotation says \<open>str\<close>, and
  its body tests \<open>isinstance(data, str)\<close>, so the other built-in types are part of
  the model.
\<close>

datatype pyval =
    PyNone
  | PyBool bool
  | PyInt int
  | PyStr string
  | PyBytes string
  | PyList "pyval list"

text \<open>
  A decoded value is a string or, when the wire form had a comma, a list of strings.
\<close>

datatype wire_value = Scalar string | Listed "string list"

text \<open>
  Exceptions. \<open>PoorlyFormed pair keyValuePairs\<close> is the
  \<open>Exception(f'Poorly formed data; {pair} in {keyValuePairs}')\<close> of \<open>__parseInput\<close>;
  \<open>Exception text\<close> is an \<open>Exception\<close> built from a message, \<open>InvalidAction a\<close> the
  \<open>Exception\<close> of \<open>__handleListenerInput\<close> when \<open>data.get("action")\<close> is \<open>a\<close>, and
  \<open>Reraised e\<close> the \<open>Exception(e)\<close> that wraps another exception object.
\<close>

datatype exn =
    TypeError
  | ValueError
  | IndexError
  | KeyError string
  | PoorlyFormed string "string list"
  | Exception string
  | InvalidAction "wire_value option"
  | Reraised exn

text \<open>\<open>len(data)\<close>: \<open>None\<close>, Booleans and integers have no length.\<close>

fun py_len :: "pyval \<Rightarrow> exn + nat" where
  "py_len PyNone = Inl TypeError"
| "py_len (PyBool b) = Inl TypeError"
| "py_len (PyInt i) = Inl TypeError"
| "py_len (PyStr s) = Inr (length s)"
| "py_len (PyBytes b) = Inr (length b)"
| "py_len (PyList xs) = Inr (length xs)"

text \<open>\<open>str(type(data))\<close>.\<close>

fun type_repr :: "pyval \<Rightarrow> string" where
  "type_repr PyNone = ''<class '' @ [CHR 0x27] @ ''NoneType'' @ [CHR 0x27] @ ''>''"
| "type_repr (PyBool b) = ''<class '' @ [CHR 0x27] @ ''bool'' @ [CHR 0x27] @ ''>''"
| "type_repr (PyInt i) = ''<class '' @ [CHR 0x27] @ ''int'' @ [CHR 0x27] @ ''>''"
| "type_repr (PyStr s) = ''<class '' @ [CHR 0x27] @ ''str'' @ [CHR 0x27] @ ''>''"
| "type_repr (PyBytes b) = ''<class '' @ [CHR 0x27] @ ''bytes'' @ [CHR 0x27] @ ''>''"
| "type_repr (PyList xs) = ''<class '' @ [CHR 0x27] @ ''list'' @ [CHR 0x27] @ ''>''"

text \<open>Sequencing of steps that may raise: the first exception ends the run.\<close>

definition and_then :: "exn + 'a \<Rightarrow> ('a \<Rightarrow> exn + 'b) \<Rightarrow> exn + 'b" where
  "and_then r f = (case r of Inl e \<Rightarrow> Inl e | Inr x \<Rightarrow> f x)"


section \<open>Messages\<close>

text \<open>
  A message is a Python \<open>dict\<close> from strings to decoded values: an association list in
  insertion order, where \<open>res.update({key: value})\<close> overwrites in place or appends
  (\<open>AList.update\<close>), and two dicts are equal when they map the same keys to the same
  values.
\<close>

type_synonym message = "(string \<times> wire_value) list"

definition dict_eq :: "('k \<times> 'v) list \<Rightarrow> ('k \<times> 'v) list \<Rightarrow> bool" where
  "dict_eq a b = (map_of a = map_of b)"


section \<open>The process state and its effects\<close>

text \<open>
  The signals of \<open>Communicator\<close>, with the number of arguments each was declared with:
  \<open>sent = Signal(str)\<close>, \<open>received = Signal(dict)\<close>, \<open>started = Signal()\<close>,
  \<open>stopped = Signal()\<close>, \<open>stderr = Signal(object)\<close>, \<open>stdout = Signal(str)\<close>.
\<close>

datatype signal_name = sent | received | started | stopped | stderr | stdout

fun arity :: "signal_name \<Rightarrow> nat" where
  "arity sent = 1"
| "arity received = 1"
| "arity started = 0"
| "arity stopped = 0"
| "arity stderr = 1"
| "arity stdout = 1"

text \<open>
  What a signal carries: a string, a decoded message, or the error object of a socket
  (named by its \<open>str\<close>).
\<close>

datatype payload = PStr string | PDict message | PError string

datatype endpoint = readSocket | writeSocket

text \<open>
  What the process does to the outside, in order: requests to the two sockets, bytes
  written to the write socket, signals emitted by the Communicator, operations on
  worker objects (named by the number of their creation), and what a worker's
  \<open>run\<close> prints and saves.
\<close>

datatype effect =
    ConnectToServer endpoint
  | DisconnectFromServer endpoint
  | Write string
  | Emit signal_name "payload list"
  | Terminate nat
  | DeleteLater nat
  | Print string string
  | Save string

text \<open>
  A \<open>JuliaWorkerThread\<close>: the object (\<open>wid\<close>), its \<open>__pid\<close> and its \<open>_params\<close>.
\<close>

record worker =
  wid :: nat
  wpid :: string
  params :: "string \<times> string"

text \<open>
  The attributes of the process: \<open>Communicator.__isActive\<close>, \<open>JuliaSolver.__threads\<close>
  (a dict whose keys are the thread ids given to \<open>__spawnThread\<close>: a string, or \<open>None\<close>
  when the command had no \<open>pid\<close>), the number of worker objects created so far, and
  the effects so far, oldest first.
\<close>

record process =
  isActive :: bool
  threads :: "(string option \<times> worker) list"
  objects :: nat
  history :: "effect list"

definition effect :: "effect \<Rightarrow> process \<Rightarrow> process" where
  "effect e s = s\<lparr>history := history s @ [e]\<rparr>"

text \<open>
  \<open>signal.emit(...)\<close>: an emission with a number of arguments other than the
  declared one raises \<open>TypeError\<close> and emits nothing. The model records the emission;
  it does not run the slots that \<open>JuliaSolver.configure\<close> connects.
\<close>

definition emit :: "signal_name \<Rightarrow> payload list \<Rightarrow> process \<Rightarrow> exn + process" where
  "emit sg args s =
     (if length args = arity sg then Inr (effect (Emit sg args) s) else Inl TypeError)"


section \<open>Communicator\<close>

text \<open>
  What the two \<open>QLocalSocket\<close>s answer during one call: \<open>waitForConnected(1000)\<close>,
  \<open>waitForDisconnected(1000)\<close>, \<open>str(error())\<close> and \<open>str(errorString())\<close>, and, for a
  socket that connected, \<open>isValid()\<close>.
\<close>

record transport =
  waitForConnected :: "endpoint \<Rightarrow> bool"
  waitForDisconnected :: "endpoint \<Rightarrow> bool"
  isValid :: "endpoint \<Rightarrow> bool"
  error :: "endpoint \<Rightarrow> string"
  errorString :: "endpoint \<Rightarrow> string"

text \<open>
  \<open>socket.isValid()\<close>: a \<open>QLocalSocket\<close> that did not connect has no descriptor and is
  not valid; one that connected answers what the transport says.
\<close>

definition socket_isValid :: "transport \<Rightarrow> endpoint \<Rightarrow> bool" where
  "socket_isValid tr e = (waitForConnected tr e \<and> isValid tr e)"

text \<open>
  \<open>send\<close>: the line, a newline added, is written and then announced with
  \<open>self.sent.emit(data)\<close>, one argument for a signal declared with one.
\<close>

definition send :: "string \<Rightarrow> process \<Rightarrow> process" where
  "send data s =
     effect (Emit sent [PStr (data @ [CHR 0x0A])]) (effect (Write (data @ [CHR 0x0A])) s)"

text \<open>
  The slots that \<open>configure\<close> connects to the sockets. A local socket connects, or
  fails to, inside \<open>connectToServer\<close>: when it connects, its \<open>connected\<close> signal runs
  \<open>__handleReadSocketConnected\<close> or \<open>__handleWriteSocketConnected\<close>, which sends a
  line; when it fails, its \<open>errorOccurred\<close> signal runs \<open>__handleSocketErrors\<close>, which
  emits the error on \<open>stderr\<close>.
\<close>

definition handleSocketConnected :: "endpoint \<Rightarrow> process \<Rightarrow> process" where
  "handleSocketConnected e s =
     (case e of
        readSocket \<Rightarrow> send ''read socket connected'' s
      | writeSocket \<Rightarrow> send ''write socket connected'' s)"

definition handleSocketErrors :: "string \<Rightarrow> process \<Rightarrow> process" where
  "handleSocketErrors err s = effect (Emit stderr [PError err]) s"

definition connectToServer :: "transport \<Rightarrow> endpoint \<Rightarrow> process \<Rightarrow> process" where
  "connectToServer tr e s =
     (if waitForConnected tr e then handleSocketConnected e (effect (ConnectToServer e) s)
      else handleSocketErrors (error tr e) (effect (ConnectToServer e) s))"

definition prime :: "transport \<Rightarrow> process \<Rightarrow> process" where
  "prime tr s = connectToServer tr writeSocket (connectToServer tr readSocket s)"

definition testSocketValidity :: "transport \<Rightarrow> bool" where
  "testSocketValidity tr = (socket_isValid tr readSocket \<and> socket_isValid tr writeSocket)"

definition testConnections :: "transport \<Rightarrow> bool \<times> string" where
  "testConnections tr =
     (let m = '''';
          s1 = waitForConnected tr writeSocket;
          m = (if \<not> s1
               then ''Write Socket Failed to connect: ['' @ error tr writeSocket @ ''] ''
                      @ errorString tr writeSocket
               else m);
          s2 = waitForConnected tr readSocket;
          m = (if \<not> s2
               then m @ [CHR 0x0A] @ ''---'' @ [CHR 0x0A]
                      @ ''Read Socket Failed to Connect: ['' @ error tr readSocket @ ''] ''
                      @ errorString tr readSocket
               else m)
      in (s1 \<and> s2, m))"

definition testDisconnections :: "transport \<Rightarrow> bool \<times> string" where
  "testDisconnections tr =
     (let m = '''';
          s1 = waitForDisconnected tr writeSocket;
          m = (if \<not> s1
               then ''Write Socket Failed to disconnect: ['' @ error tr writeSocket @ ''] ''
                      @ errorString tr writeSocket
               else m);
          s2 = waitForDisconnected tr readSocket;
          m = (if \<not> s2
               then m @ [CHR 0x0A] @ ''---'' @ [CHR 0x0A]
                      @ ''Read Socket Failed to disconnect: ['' @ error tr readSocket @ ''] ''
                      @ errorString tr readSocket
               else m)
      in (s1 \<and> s2, m))"

text \<open>
  \<open>start\<close>: \<open>configure()\<close> connects the slots; \<open>prime()\<close> asks both sockets to
  connect, and the slots above run; then the two tests, in the order of the source.
\<close>

definition start :: "transport \<Rightarrow> process \<Rightarrow> exn + process" where
  "start tr s0 =
     (let s = prime tr s0 in
      case testConnections tr of (state, message) \<Rightarrow>
        and_then
          (if state then Inr (s\<lparr>isActive := True\<rparr>)
           else emit stderr
                  [PStr (''Failed to start connector, Sockets not properly primed.''
                           @ [CHR 0x0A] @ message)] s)
          (\<lambda>s1. if \<not> testSocketValidity tr
                then emit stderr [PStr ''Sockets Failed Validity Test''] (s1\<lparr>isActive := False\<rparr>)
                else and_then (emit stdout [PStr ''Communicator Primed''] (s1\<lparr>isActive := True\<rparr>))
                       (emit started [])))"

text \<open>
  \<open>stop\<close>: the failure branch calls \<open>self.stderr.emit("Failed to disconnect sockets: \n", error)\<close>,
  with two arguments.
\<close>

definition stop :: "transport \<Rightarrow> process \<Rightarrow> exn + process" where
  "stop tr s0 =
     (let s = effect (DisconnectFromServer writeSocket)
                (effect (DisconnectFromServer readSocket) s0) in
      case testDisconnections tr of (state, err) \<Rightarrow>
        if state
        then and_then (emit stdout [PStr ''Sockets disconnected''] s)
               (\<lambda>s1. and_then (emit stopped [] s1) (\<lambda>s2. Inr (s2\<lparr>isActive := False\<rparr>)))
        else emit stderr [PStr (''Failed to disconnect sockets: '' @ [CHR 0x0A]), PStr err] s)"

text \<open>The loop of \<open>__parseInput\<close> over \<open>keyValuePairs\<close>, with the dict built so far.\<close>

fun parsePairs :: "string list \<Rightarrow> string list \<Rightarrow> message \<Rightarrow> exn + message" where
  "parsePairs keyValuePairs [] res = Inr res"
| "parsePairs keyValuePairs (pair # rest) res =
     (if length (py_strip pair) = 0 then parsePairs keyValuePairs rest res
      else if CHR ''='' \<notin> set (py_strip pair)
      then Inl (PoorlyFormed (py_strip pair) keyValuePairs)
      else (case py_split CHR ''='' (py_strip pair) of
              [key, val] \<Rightarrow>
                parsePairs keyValuePairs rest
                  (AList.update key
                     (if CHR '','' \<in> set val then Listed (py_split CHR '','' val)
                      else Scalar val) res)
            | _ \<Rightarrow> Inl ValueError))"

definition parseInput :: "pyval \<Rightarrow> process \<Rightarrow> exn + (message \<times> process)" where
  "parseInput data s =
     and_then (py_len data) (\<lambda>n.
       if n = 0
       then and_then (emit stdout [PStr ''[MSG]: empty string was passed, returning.''] s)
              (\<lambda>s1. Inr ([], s1))
       else (case data of
               PyStr d \<Rightarrow>
                 and_then (parsePairs (py_split CHR '';'' d) (py_split CHR '';'' d) [])
                   (\<lambda>res. Inr (res, s))
             | _ \<Rightarrow>
                 and_then
                   (emit stdout
                      [PStr (''[MSG]: Data with type '' @ [CHR 0x27] @ type_repr data
                               @ [CHR 0x27] @ '' was passed instead of ''
                               @ [CHR 0x27] @ ''str'' @ [CHR 0x27] @ ''.'')] s)
                   (\<lambda>s1. Inr ([], s1))))"

text \<open>\<open>Decode\<close> of a line: the dict \<open>__parseInput\<close> returns for a \<open>str\<close>.\<close>

definition Decode :: "string \<Rightarrow> exn + message" where
  "Decode line =
     and_then (parseInput (PyStr line)
                 \<lparr>isActive = False, threads = [], objects = 0, history = []\<rparr>)
       (\<lambda>r. Inr (fst r))"


section \<open>Status lines\<close>

text \<open>The inner function of \<open>__logData\<close>.\<close>

definition appendKeyValuePair :: "string \<Rightarrow> string \<Rightarrow> string option \<Rightarrow> string" where
  "appendKeyValuePair basePair key val =
     basePair @ key @ ''='' @ (case val of None \<Rightarrow> ''none'' | Some v \<Rightarrow> v) @ '';''"

text \<open>The line \<open>__logData\<close> builds, and \<open>__logData\<close> itself, which sends it.\<close>

definition status_line :: "bool \<Rightarrow> string option \<Rightarrow> bool \<Rightarrow> string option \<Rightarrow> string" where
  "status_line failed text log thread_id =
     (let msg = [];
          msg = appendKeyValuePair msg ''failed'' (Some (str_lower_bool failed));
          msg = appendKeyValuePair msg ''text'' text;
          msg = appendKeyValuePair msg ''log'' (Some (str_lower_bool log));
          msg = appendKeyValuePair msg ''pid'' thread_id
      in msg)"

definition logData :: "bool \<Rightarrow> string option \<Rightarrow> bool \<Rightarrow> string option \<Rightarrow> process \<Rightarrow> process" where
  "logData failed text log thread_id s = send (status_line failed text log thread_id) s"

text \<open>
  Modelled from the spec: the encoder of a whole message. The source only encodes the
  four fixed fields of a status line, each a string; the docstring of \<open>__logData\<close>
  gives the format \<open>arg_n=value_n0,...,value_nm;\<close> for a list. \<open>Encode\<close> appends
  the pairs with \<open>appendKeyValuePair\<close>, a list value joined with commas.
\<close>

fun render :: "wire_value \<Rightarrow> string" where
  "render (Scalar v) = v"
| "render (Listed vs) = py_join CHR '','' vs"

definition Encode :: "message \<Rightarrow> string" where
  "Encode m =
     foldl (\<lambda>basePair (key, val). appendKeyValuePair basePair key (Some (render val))) [] m"


section \<open>JuliaWorkerThread\<close>

text \<open>
  The constructor: the object is numbered, and \<open>uuid\<close> is what \<open>str(uuid4())\<close>
  returns, used when no pid is given.
\<close>

definition JuliaWorkerThread :: "nat \<Rightarrow> string \<Rightarrow> string \<times> string \<Rightarrow> string option \<Rightarrow> worker" where
  "JuliaWorkerThread obj uuid ps pid =
     \<lparr>wid = obj, wpid = (case pid of None \<Rightarrow> uuid | Some p \<Rightarrow> p), params = ps\<rparr>"

text \<open>The arguments of the signals \<open>threadFinished\<close> and \<open>threadStarted\<close>.\<close>

definition handleFinished :: "worker \<Rightarrow> string" where
  "handleFinished t = wpid t"

definition handleStarted :: "worker \<Rightarrow> string" where
  "handleStarted t = wpid t"

text \<open>
  What a command meets outside: \<open>os.path.exists\<close>, \<open>SealSolver.solve\<close> (a tuple of
  results, or an exception), the measured time \<open>et - st\<close> and its printed form,
  \<open>np.save\<close> on a file (the exception it raises, if any), and the text Python prints
  for a dict. The numbers and arrays of the solver are of an arbitrary type \<open>'v\<close>.
\<close>

record 'v world =
  path_exists :: "string \<Rightarrow> bool"
  solve :: "string \<Rightarrow> exn + 'v list"
  elapsed :: 'v
  format :: "'v \<Rightarrow> string"
  np_save :: "string \<Rightarrow> exn option"
  str_of_dict :: "(string \<times> wire_value) list \<Rightarrow> string"

text \<open>
  What \<open>np.save\<close> is given: one result of the solver, or the row
  \<open>np.array([[res[7], res[8], res[9], t]])\<close>.
\<close>

datatype 'v artifact = Array 'v | MeshConfig 'v 'v 'v 'v

text \<open>\<open>os.path.join(a, b)\<close> on POSIX.\<close>

definition os_path_join :: "string \<Rightarrow> string \<Rightarrow> string" where
  "os_path_join a b =
     (if b \<noteq> [] \<and> hd b = CHR ''/'' then b
      else if a = [] \<or> last a = CHR ''/'' then a @ b
      else a @ ''/'' @ b)"

text \<open>The dict \<open>DATA\<close>; indexing the result tuple beyond its end raises.\<close>

definition DATA :: "'v list \<Rightarrow> 'v \<Rightarrow> exn + (string \<times> 'v artifact) list" where
  "DATA res t =
     (if length res < 10 then Inl IndexError
      else Inr [(''c_save'', Array (res ! 0)),
                (''t_save'', Array (res ! 1)),
                (''w_save'', Array (res ! 2)),
                (''v_save'', Array (res ! 3)),
                (''regime_save'', Array (res ! 4)),
                (''PSI_save'', Array (res ! 5)),
                (''p_save'', Array (res ! 6)),
                (''mesh_config'', MeshConfig (res ! 7) (res ! 8) (res ! 9) t)])"

text \<open>
  The loop over \<open>DATA\<close> that saves the files: the first \<open>np.save\<close> that raises ends
  it. The result is the files written and the exception, if any.
\<close>

fun save_files :: "(string \<Rightarrow> exn option) \<Rightarrow> (string \<times> 'a) list
                     \<Rightarrow> (string \<times> 'a) list \<times> exn option" where
  "save_files sv [] = ([], None)"
| "save_files sv ((file, data) # rest) =
     (case sv file of
        Some e \<Rightarrow> ([], Some e)
      | None \<Rightarrow> (case save_files sv rest of (written, r) \<Rightarrow> ((file, data) # written, r)))"

text \<open>
  The result of \<open>run\<close>: what it printed and saved, in order (\<open>acts\<close>), the files
  with their contents (\<open>saved\<close>), and the exception its \<open>try\<close> block caught, which
  it reports with \<open>self.stderr.emit((self.__pid, e))\<close>.
\<close>

record 'v outcome =
  acts :: "effect list"
  saved :: "(string \<times> 'v artifact) list"
  caught :: "exn option"

definition run :: "'v world \<Rightarrow> worker \<Rightarrow> 'v outcome" where
  "run w t =
     (case params t of (in_dir, out_dir) \<Rightarrow>
        if \<not> path_exists w in_dir
        then \<lparr>acts = [], saved = [],
               caught = Some (Exception (''Path '' @ in_dir @ '' does not exists''))\<rparr>
        else if \<not> path_exists w out_dir
        then \<lparr>acts = [], saved = [],
               caught = Some (Exception (''Path '' @ out_dir @ '' does not exists''))\<rparr>
        else
          (let p1 = [Print (wpid t) ''Working...'', Print (wpid t) ''Priming Solver''] in
           case solve w in_dir of
             Inl e \<Rightarrow> \<lparr>acts = p1, saved = [], caught = Some e\<rparr>
           | Inr res \<Rightarrow>
               (let p2 = p1 @
                      [Print (wpid t)
                         (''[STATUS]: Computation Completed - '' @ format w (elapsed w) @ '' secs''),
                       Print (wpid t) ''[STATUS]: Collecting Results''] in
                case DATA res (elapsed w) of
                  Inl e \<Rightarrow> \<lparr>acts = p2, saved = [], caught = Some e\<rparr>
                | Inr d \<Rightarrow>
                    (let files = map (\<lambda>(key, data). (os_path_join out_dir (key @ ''.npy''), data)) d
                     in case save_files (np_save w) files of
                          (written, Some e) \<Rightarrow>
                            \<lparr>acts = p2 @ map (\<lambda>(file, data). Save file) written,
                               saved = written, caught = Some e\<rparr>
                        | (written, None) \<Rightarrow>
                            \<lparr>acts = p2 @ map (\<lambda>(file, data). Save file) written @
                                      [Print (wpid t) ''[STATUS]: Results written to target files'',
                                       Print (wpid t) ''action=completed''],
                               saved = written, caught = None\<rparr>))))"


section \<open>JuliaSolver\<close>

definition killThread :: "string option \<Rightarrow> process \<Rightarrow> process" where
  "killThread thread_id s =
     (case map_of (threads s) thread_id of
        None \<Rightarrow>
          logData False
            (Some (''[WARNING] Thread with id '' @ [CHR 0x27] @ format_id thread_id @ [CHR 0x27]
                     @ '', does not exists''))
            True thread_id s
      | Some t \<Rightarrow>
          logData False
            (Some (''[ACTION] Thread<'' @ format_id thread_id @ ''> Terminated''))
            True thread_id
            (effect (Terminate (wid t)) (s\<lparr>threads := AList.delete thread_id (threads s)\<rparr>)))"

definition handleThreadFinished :: "string \<Rightarrow> process \<Rightarrow> process" where
  "handleThreadFinished pid s0 =
     (let s = logData False (Some (''thread with pid: <'' @ pid @ ''> finished successfully''))
                True (Some pid) s0 in
      case map_of (threads s) (Some pid) of
        None \<Rightarrow> s
      | Some t \<Rightarrow> effect (DeleteLater (wid t)) (s\<lparr>threads := AList.delete (Some pid) (threads s)\<rparr>))"

definition handleThreadStarted :: "string \<Rightarrow> process \<Rightarrow> process" where
  "handleThreadStarted pid s =
     logData False (Some (''thread with pid: <'' @ pid @ ''> started'')) True (Some pid) s"

text \<open>
  \<open>__handleThreadError\<close> always raises: \<open>KeyError\<close> from \<open>pop\<close> when the pid is not a
  key, \<open>Exception(e)\<close> at its end otherwise. The state is the one at the raise.
\<close>

definition handleThreadError :: "string \<times> exn \<Rightarrow> process \<Rightarrow> exn \<times> process" where
  "handleThreadError errorTuple s =
     (case errorTuple of (pid, e) \<Rightarrow>
        (case map_of (threads s) (Some pid) of
           None \<Rightarrow> (KeyError pid, s)
         | Some t \<Rightarrow>
             (Reraised e,
              logData True
                (Some (''[ERROR] Thread with id: '' @ [CHR 0x27] @ pid @ [CHR 0x27]
                         @ '' failed. Error below''))
                True (Some pid)
                (effect (DeleteLater (wid t))
                   (s\<lparr>threads := AList.delete (Some pid) (threads s)\<rparr>)))))"

text \<open>
  \<open>__spawnThread\<close>. Its last statement is \<open>thread.run()\<close>, a call: the worker runs
  before \<open>__spawnThread\<close> returns, and an exception caught in \<open>run\<close> reaches
  \<open>__handleThreadError\<close> through the worker's \<open>stderr\<close> signal. The first component
  of the result is the exception that handler raised, if it ran.
\<close>

definition spawnThread :: "'v world \<Rightarrow> string \<Rightarrow> string option \<Rightarrow> string \<times> string \<Rightarrow> process
                             \<Rightarrow> exn option \<times> process" where
  "spawnThread w uuid thread_id args s0 =
     (let s1 = logData False (Some ''[ACTION] Spawning Thread'') True None s0;
          s2 = (if thread_id \<in> set (map fst (threads s1))
                then killThread thread_id
                       (logData False
                          (Some (''[WARNING] Thread with id '' @ [CHR 0x27] @ format_id thread_id
                                   @ [CHR 0x27]
                                   @ '' already exist. Original thread will be killed and overridden''))
                          True thread_id s1)
                else s1);
          thread = JuliaWorkerThread (objects s2) uuid args thread_id;
          s3 = s2\<lparr>objects := Suc (objects s2),
                    threads := AList.update thread_id thread (threads s2)\<rparr>;
          r = run w thread;
          s4 = s3\<lparr>history := history s3 @ acts r\<rparr>
      in case caught r of
           None \<Rightarrow> (None, s4)
         | Some e \<Rightarrow> (case handleThreadError (wpid thread, e) s4 of (x, s5) \<Rightarrow> (Some x, s5)))"

section \<open>Commands to the supervisor\<close>


text \<open>
  \<open>args[i]\<close> for what \<open>data.get("args")\<close> returns: \<open>None\<close> cannot be indexed, a string
  gives its character, a list its element.
\<close>

definition subscript :: "wire_value option \<Rightarrow> nat \<Rightarrow> exn + string" where
  "subscript v i =
     (case v of
        None \<Rightarrow> Inl TypeError
      | Some (Scalar x) \<Rightarrow> if i < length x then Inr [x ! i] else Inl IndexError
      | Some (Listed xs) \<Rightarrow> if i < length xs then Inr (xs ! i) else Inl IndexError)"

text \<open>
  \<open>__handleListenerInput\<close>, the slot of the Communicator's \<open>received\<close> signal, with the
  world the command meets and the id \<open>uuid4\<close> would give. \<open>str(data.get("action"))\<close>
  is \<open>kill\<close> or \<open>start\<close> only when the value is that string (\<open>None\<close> prints as
  \<open>None\<close>, a list with brackets). A pid that is a list cannot be a key: the first
  operation on the dict \<open>__threads\<close> raises \<open>TypeError\<close>, at once in \<open>__killThread\<close>
  and after the first status line in \<open>__spawnThread\<close>. The first component of the
  result is the exception raised, if any; the state is the one at the raise.
\<close>

definition handleListenerInput :: "'v world \<Rightarrow> string \<Rightarrow> message \<Rightarrow> process
                                     \<Rightarrow> exn option \<times> process" where
  "handleListenerInput w uuid data s0 =
     (let s = logData False
                (Some (''[ACTION]: Data Received'' @ [CHR 0x0A, CHR 0x09] @ '' '' @ str_of_dict w data
                         @ '', '' @ [CHR 0x0A, CHR 0x09] @ ''stimulating run'' @ [CHR 0x0A]))
                True None s0 in
      case map_of data ''action'' of
        Some (Scalar action) \<Rightarrow>
          if action = ''kill'' then
            (case map_of data ''pid'' of
               None \<Rightarrow> (None, killThread None s)
             | Some (Scalar p) \<Rightarrow> (None, killThread (Some p) s)
             | Some (Listed ps) \<Rightarrow> (Some TypeError, s))
          else if action = ''start'' then
            (case subscript (map_of data ''args'') 0 of
               Inl e \<Rightarrow> (Some e, s)
             | Inr in_dir \<Rightarrow>
                 if \<not> path_exists w in_dir
                 then (Some (Exception (''Path '' @ in_dir @ '' does not exists'')), s)
                 else
                   (case subscript (map_of data ''args'') 1 of
                      Inl e \<Rightarrow> (Some e, s)
                    | Inr out_dir \<Rightarrow>
                        if \<not> path_exists w out_dir
                        then (Some (Exception (''Path '' @ out_dir @ '' does not exists'')), s)
                        else
                          (case map_of data ''pid'' of
                             None \<Rightarrow> spawnThread w uuid None (in_dir, out_dir) s
                           | Some (Scalar p) \<Rightarrow> spawnThread w uuid (Some p) (in_dir, out_dir) s
                           | Some (Listed ps) \<Rightarrow>
                               (Some TypeError,
                                logData False (Some ''[ACTION] Spawning Thread'') True None s))))
          else (Some (InvalidAction (Some (Scalar action))), s)
      | Some (Listed xs) \<Rightarrow> (Some (InvalidAction (Some (Listed xs))), s)
      | None \<Rightarrow> (Some (InvalidAction None), s))"






section \<open>The decoder, segment by segment\<close>

text \<open>
  A second description of the decoder, to compare \<open>__parseInput\<close> with. The line is cut
  at each \<open>;\<close>, the pieces are trimmed and the empty ones dropped. A segment with no
  \<open>=\<close> is the formatting error, a segment with exactly one \<open>=\<close> gives the key before it
  and the value after it, and a segment with more than one \<open>=\<close> is an error as
  well. The first error ends the decoding; otherwise the pairs are stored in order.
\<close>

definition decode_value :: "string \<Rightarrow> wire_value" where
  "decode_value v = (if CHR '','' \<in> set v then Listed (py_split CHR '','' v) else Scalar v)"

definition decode_segment :: "string list \<Rightarrow> string \<Rightarrow> exn + (string \<times> wire_value)" where
  "decode_segment keyValuePairs seg =
     (if count_list seg CHR ''='' = 0 then Inl (PoorlyFormed seg keyValuePairs)
      else if count_list seg CHR ''='' = 1
      then Inr (takeWhile (\<lambda>c. c \<noteq> CHR ''='') seg,
                decode_value (tl (dropWhile (\<lambda>c. c \<noteq> CHR ''='') seg)))
      else Inl ValueError)"

fun collect :: "(exn + (string \<times> wire_value)) list \<Rightarrow> message \<Rightarrow> exn + message" where
  "collect [] res = Inr res"
| "collect (Inl e # rs) res = Inl e"
| "collect (Inr (key, val) # rs) res = collect rs (AList.update key val res)"

definition Decode_amended :: "string \<Rightarrow> exn + message" where
  "Decode_amended line =
     collect
       (map (decode_segment (py_split CHR '';'' line))
          (filter (\<lambda>seg. seg \<noteq> []) (map py_strip (py_split CHR '';'' line))))
       []"


section \<open>Messages that survive the wire\<close>

text \<open>
  \<open>plain\<close>: not empty, and free of the three reserved characters. A key must also not
  begin with whitespace and a value not end with it, since the decoder trims each
  segment; and a list value must have two elements at least, since a value without a
  comma is decoded as a string.
\<close>

definition plain :: "string \<Rightarrow> bool" where
  "plain x = (x \<noteq> [] \<and> CHR '';'' \<notin> set x \<and> CHR ''='' \<notin> set x \<and> CHR '','' \<notin> set x)"

fun value_ok :: "wire_value \<Rightarrow> bool" where
  "value_ok (Scalar v) = (plain v \<and> \<not> isspace (last v))"
| "value_ok (Listed vs) = (2 \<le> length vs \<and> list_all plain vs \<and> \<not> isspace (last (last vs)))"

definition pair_ok :: "string \<times> wire_value \<Rightarrow> bool" where
  "pair_ok p = (plain (fst p) \<and> \<not> isspace (hd (fst p)) \<and> value_ok (snd p))"

definition round_trips :: "message \<Rightarrow> bool" where
  "round_trips m = (distinct (map fst m) \<and> list_all pair_ok m)"


section \<open>Communicator: start and stop\<close>

lemma send_is_emit:
  "emit sent [PStr (data @ [CHR 0x0A])] (effect (Write (data @ [CHR 0x0A])) s) = Inr (send data s)"
  by (simp add: emit_def send_def)

lemma effect_fields [simp]:
  "threads (effect e s) = threads s"
  "objects (effect e s) = objects s"
  "isActive (effect e s) = isActive s"
  "history (effect e s) = history s @ [e]"
  by (simp_all add: effect_def)

lemma send_fields [simp]:
  "threads (send d s) = threads s"
  "objects (send d s) = objects s"
  "isActive (send d s) = isActive s"
  "history (send d s) = history s @ [Write (d @ [CHR 0x0A]), Emit sent [PStr (d @ [CHR 0x0A])]]"
  by (simp_all add: send_def)

text \<open>
  \<open>prime\<close> changes the history only, and emits no \<open>started\<close>.
\<close>

lemma prime_fields:
  "threads (prime tr s) = threads s"
  "objects (prime tr s) = objects s"
  "isActive (prime tr s) = isActive s"
  "\<exists>new. history (prime tr s) = history s @ new \<and> Emit started [] \<notin> set new"
  by (auto simp add: prime_def connectToServer_def handleSocketConnected_def
        handleSocketErrors_def split: endpoint.splits)

text \<open>A socket that did not connect fails the validity test.\<close>

lemma validity_needs_connection:
  "testSocketValidity tr \<Longrightarrow> waitForConnected tr writeSocket \<and> waitForConnected tr readSocket"
  by (simp add: testSocketValidity_def socket_isValid_def)

text \<open>
  C1. For every call of \<open>start\<close>: it returns; the Communicator is active afterwards,
  and \<open>started\<close> is emitted during the call, exactly when both sockets connected
  within the timeout and the validity test passed; and when a socket did not connect,
  the startup failure is emitted on \<open>stderr\<close> (and, by the first two facts, the
  Communicator is inactive and no \<open>started\<close> is emitted).
\<close>

theorem start_active_only_if_connected_and_valid:
  "\<exists>s'. start tr s = Inr s'
     \<and> isActive s' = (waitForConnected tr writeSocket \<and> waitForConnected tr readSocket
                        \<and> testSocketValidity tr)
     \<and> (Emit started [] \<in> set (drop (length (history s)) (history s')))
         = (waitForConnected tr writeSocket \<and> waitForConnected tr readSocket
              \<and> testSocketValidity tr)
     \<and> (\<not> (waitForConnected tr writeSocket \<and> waitForConnected tr readSocket) \<longrightarrow>
          Emit stderr
            [PStr (''Failed to start connector, Sockets not properly primed.'' @ [CHR 0x0A]
                     @ snd (testConnections tr))]
            \<in> set (drop (length (history s)) (history s')))"
proof -
  obtain new where h: "history (prime tr s) = history s @ new" and n: "Emit started [] \<notin> set new"
    using prime_fields(4) by blast
  have c: "fst (testConnections tr) = (waitForConnected tr writeSocket \<and> waitForConnected tr readSocket)"
    by (simp add: testConnections_def Let_def)
  show ?thesis
  proof (cases "waitForConnected tr writeSocket \<and> waitForConnected tr readSocket")
    case True
    with c h n show ?thesis
      by (cases "testConnections tr")
         (auto simp add: start_def Let_def and_then_def emit_def)
  next
    case False
    then have "\<not> testSocketValidity tr"
      using validity_needs_connection by blast
    with False c h n show ?thesis
      by (cases "testConnections tr")
         (auto simp add: start_def Let_def and_then_def emit_def)
  qed
qed

text \<open>No server is listening: neither socket connects.\<close>

theorem start_active_only_if_connected_and_valid_witness:
  "\<not> (waitForConnected
         \<lparr>waitForConnected = (\<lambda>e. False), waitForDisconnected = (\<lambda>e. False),
            isValid = (\<lambda>e. False), error = (\<lambda>e. ''ServerNotFoundError''),
            errorString = (\<lambda>e. ''Invalid name'')\<rparr>
         writeSocket
       \<and> waitForConnected
         \<lparr>waitForConnected = (\<lambda>e. False), waitForDisconnected = (\<lambda>e. False),
            isValid = (\<lambda>e. False), error = (\<lambda>e. ''ServerNotFoundError''),
            errorString = (\<lambda>e. ''Invalid name'')\<rparr>
         readSocket)
   \<and> start \<lparr>waitForConnected = (\<lambda>e. False), waitForDisconnected = (\<lambda>e. False),
              isValid = (\<lambda>e. False), error = (\<lambda>e. ''ServerNotFoundError''),
              errorString = (\<lambda>e. ''Invalid name'')\<rparr>
            \<lparr>isActive = False, threads = [], objects = 0, history = []\<rparr>
     = Inr \<lparr>isActive = False, threads = [], objects = 0,
            history =
              [ConnectToServer readSocket,
               Emit stderr [PError ''ServerNotFoundError''],
               ConnectToServer writeSocket,
               Emit stderr [PError ''ServerNotFoundError''],
               Emit stderr
                 [PStr (''Failed to start connector, Sockets not properly primed.'' @ [CHR 0x0A]
                          @ ''Write Socket Failed to connect: [ServerNotFoundError] Invalid name''
                          @ [CHR 0x0A] @ ''---'' @ [CHR 0x0A]
                          @ ''Read Socket Failed to Connect: [ServerNotFoundError] Invalid name'')],
               Emit stderr [PStr ''Sockets Failed Validity Test'']]\<rparr>"
proof -
  let ?tr = "\<lparr>waitForConnected = (\<lambda>e. False), waitForDisconnected = (\<lambda>e. False),
              isValid = (\<lambda>e. False), error = (\<lambda>e. ''ServerNotFoundError''),
              errorString = (\<lambda>e. ''Invalid name'')\<rparr>"
  let ?s = "\<lparr>isActive = False, threads = [], objects = 0, history = []\<rparr>"
  have e: "start ?tr ?s = Inr \<lparr>isActive = False, threads = [], objects = 0,
            history =
              [ConnectToServer readSocket,
               Emit stderr [PError ''ServerNotFoundError''],
               ConnectToServer writeSocket,
               Emit stderr [PError ''ServerNotFoundError''],
               Emit stderr
                 [PStr (''Failed to start connector, Sockets not properly primed.'' @ [CHR 0x0A]
                          @ ''Write Socket Failed to connect: [ServerNotFoundError] Invalid name''
                          @ [CHR 0x0A] @ ''---'' @ [CHR 0x0A]
                          @ ''Read Socket Failed to Connect: [ServerNotFoundError] Invalid name'')],
               Emit stderr [PStr ''Sockets Failed Validity Test'']]\<rparr>"
    by (simp add: start_def prime_def connectToServer_def handleSocketConnected_def
          handleSocketErrors_def send_def effect_def testConnections_def testSocketValidity_def
          socket_isValid_def and_then_def emit_def)
  from start_active_only_if_connected_and_valid [of ?tr ?s] e show ?thesis
    by simp
qed

text \<open>
  Both sockets connect and are valid: the two lines of the connected slots are sent,
  and the Communicator starts.
\<close>

lemma start_with_server:
  "start \<lparr>waitForConnected = (\<lambda>e. True), waitForDisconnected = (\<lambda>e. False),
           isValid = (\<lambda>e. True), error = (\<lambda>e. ''UnknownSocketError''),
           errorString = (\<lambda>e. ''Unknown error'')\<rparr>
         \<lparr>isActive = False, threads = [], objects = 0, history = []\<rparr>
   = Inr \<lparr>isActive = True, threads = [], objects = 0,
          history =
            [ConnectToServer readSocket,
             Write (''read socket connected'' @ [CHR 0x0A]),
             Emit sent [PStr (''read socket connected'' @ [CHR 0x0A])],
             ConnectToServer writeSocket,
             Write (''write socket connected'' @ [CHR 0x0A]),
             Emit sent [PStr (''write socket connected'' @ [CHR 0x0A])],
             Emit stdout [PStr ''Communicator Primed''],
             Emit started []]\<rparr>"
  by (simp add: start_def prime_def connectToServer_def handleSocketConnected_def
        handleSocketErrors_def send_def effect_def testConnections_def testSocketValidity_def
        socket_isValid_def and_then_def emit_def)

text \<open>
  When both sockets confirm the disconnection, \<open>stop\<close> returns, emits \<open>stopped\<close> and
  leaves the Communicator inactive.
\<close>

lemma stop_success:
  "waitForDisconnected tr writeSocket \<Longrightarrow> waitForDisconnected tr readSocket \<Longrightarrow>
   stop tr s =
     Inr (s\<lparr>isActive := False,
            history := history s @
              [DisconnectFromServer readSocket, DisconnectFromServer writeSocket,
               Emit stdout [PStr ''Sockets disconnected''], Emit stopped []]\<rparr>)"
  by (simp add: stop_def effect_def testDisconnections_def and_then_def emit_def)

text \<open>When one of them does not, \<open>stop\<close> raises and emits nothing.\<close>

lemma stop_failure:
  "\<not> (waitForDisconnected tr writeSocket \<and> waitForDisconnected tr readSocket) \<Longrightarrow>
   stop tr s = Inl TypeError"
  by (auto simp add: stop_def effect_def testDisconnections_def and_then_def emit_def Let_def)

text \<open>
  C7. The claim: \<open>stop\<close> emits \<open>stopped\<close>, or an error event naming the endpoint that
  failed to disconnect, and completes without raising in both cases. The code at a
  failing input: the write socket does not confirm the disconnection within the
  timeout. \<open>stop\<close> calls \<open>stderr.emit\<close> with two arguments, the signal takes one, and
  the call raises \<open>TypeError\<close>: no error event is emitted.
\<close>

theorem stop_raises_on_failed_disconnection:
  "stop \<lparr>waitForConnected = (\<lambda>e. True), waitForDisconnected = (\<lambda>e. e = readSocket),
          isValid = (\<lambda>e. True), error = (\<lambda>e. ''5''), errorString = (\<lambda>e. ''timed out'')\<rparr>
        \<lparr>isActive = True, threads = [], objects = 0, history = []\<rparr>
   = Inl TypeError"
  by (simp add: stop_def effect_def testDisconnections_def and_then_def emit_def)


section \<open>Communicator: decoding\<close>

text \<open>
  A value that is not a \<open>str\<close> and has a length is turned away with a message on
  \<open>stdout\<close> and the empty dict.
\<close>

lemma parseInput_sized_non_string:
  "data = PyBytes b \<or> data = PyList xs \<Longrightarrow>
   \<exists>text. parseInput data s = Inr ([], effect (Emit stdout [PStr text]) s)"
  by (auto simp add: parseInput_def and_then_def emit_def)

text \<open>
  C4. The claim: a non-string input is rejected with a diagnostic and an empty
  Message, and nothing is raised. The code at a failing input: \<open>None\<close>, or the
  integer 5. \<open>__parseInput\<close> takes \<open>len(data)\<close> before it tests the type, and
  \<open>len\<close> raises \<open>TypeError\<close> on both.
\<close>

theorem parseInput_raises_on_None:
  "parseInput PyNone \<lparr>isActive = True, threads = [], objects = 0, history = []\<rparr>
     = Inl TypeError
   \<and> parseInput (PyInt 5) \<lparr>isActive = True, threads = [], objects = 0, history = []\<rparr>
     = Inl TypeError"
  by (simp add: parseInput_def and_then_def)

text \<open>Facts about \<open>split\<close>.\<close>

lemma py_split_not_Nil [simp]: "py_split c s \<noteq> []"
  by (cases s) (auto split: list.splits)

lemma py_split_absent: "c \<notin> set s \<Longrightarrow> py_split c s = [s]"
  by (induction s) auto

lemma py_split_append:
  "c \<notin> set a \<Longrightarrow> py_split c (a @ c # r) = a # py_split c r"
  by (induction a) auto

lemma length_py_split: "length (py_split c s) = Suc (count_list s c)"
  by (induction s) (auto split: list.splits)

lemma py_split_first:
  assumes "c \<in> set s"
  shows "py_split c s =
           takeWhile (\<lambda>x. x \<noteq> c) s # py_split c (tl (dropWhile (\<lambda>x. x \<noteq> c) s))"
proof -
  let ?a = "takeWhile (\<lambda>x. x \<noteq> c) s" and ?d = "dropWhile (\<lambda>x. x \<noteq> c) s"
  from assms have "?d \<noteq> []"
    by (auto simp add: dropWhile_eq_Nil_conv)
  moreover from this have "hd ?d = c"
    using hd_dropWhile [of "\<lambda>x. x \<noteq> c" s] by simp
  ultimately have "?d = c # tl ?d"
    by (cases ?d) auto
  then have "s = ?a @ c # tl ?d"
    using takeWhile_dropWhile_id [of "\<lambda>x. x \<noteq> c" s] by simp
  moreover have "c \<notin> set ?a"
    by (auto dest: set_takeWhileD)
  ultimately show ?thesis
    using py_split_append [of c ?a "tl ?d"] by simp
qed

lemma count_list_first:
  "c \<in> set s \<Longrightarrow> count_list s c = Suc (count_list (tl (dropWhile (\<lambda>x. x \<noteq> c) s)) c)"
  by (induction s) auto

lemma py_split_one:
  assumes "count_list s c = 1"
  shows "py_split c s = [takeWhile (\<lambda>x. x \<noteq> c) s, tl (dropWhile (\<lambda>x. x \<noteq> c) s)]"
proof -
  from assms have m: "c \<in> set s"
    by (metis count_list_0_iff zero_neq_one)
  with assms have "count_list (tl (dropWhile (\<lambda>x. x \<noteq> c) s)) c = 0"
    using count_list_first [of c s] by simp
  then have "c \<notin> set (tl (dropWhile (\<lambda>x. x \<noteq> c) s))"
    by (simp add: count_list_0_iff)
  then show ?thesis
    using py_split_first [OF m] by (simp add: py_split_absent)
qed

lemma long_list:
  "3 \<le> length xs \<Longrightarrow> \<exists>a b c r. xs = a # b # c # r"
  by (auto simp add: numeral_3_eq_3 Suc_le_length_iff)

text \<open>The loop of \<open>__parseInput\<close> does what the second description says.\<close>

lemma parsePairs_amended:
  "parsePairs kvs segs res =
     collect (map (decode_segment kvs) (filter (\<lambda>seg. seg \<noteq> []) (map py_strip segs))) res"
proof (induction segs arbitrary: res)
  case Nil
  show ?case by simp
next
  case (Cons p rest)
  let ?n = "count_list (py_strip p) CHR ''=''"
  consider (empty) "py_strip p = []"
    | (none) "py_strip p \<noteq> []" "?n = 0"
    | (one) "py_strip p \<noteq> []" "?n = 1"
    | (many) "py_strip p \<noteq> []" "2 \<le> ?n"
    by linarith
  then show ?case
  proof cases
    case empty
    then show ?thesis by (simp add: Cons.IH)
  next
    case none
    then show ?thesis
      by (simp add: decode_segment_def count_list_0_iff)
  next
    case one
    then have "CHR ''='' \<in> set (py_strip p)"
      by (metis count_list_0_iff zero_neq_one)
    with one show ?thesis
      by (simp add: decode_segment_def py_split_one Cons.IH decode_value_def)
  next
    case many
    then have "CHR ''='' \<in> set (py_strip p)"
      by (metis count_list_0_iff not_numeral_le_zero)
    moreover from many have "3 \<le> length (py_split CHR ''='' (py_strip p))"
      by (simp add: length_py_split)
    then obtain a b c r where "py_split CHR ''='' (py_strip p) = a # b # c # r"
      using long_list by blast
    ultimately show ?thesis
      using many by (simp add: decode_segment_def)
  qed
qed

text \<open>
  C3, as amended. For every line, \<open>Decode\<close> cuts the line at each \<open>;\<close>, trims the
  pieces and drops the empty ones; a segment with exactly one \<open>=\<close> is split there
  into key and value, a segment with no \<open>=\<close> is the formatting error, and a segment
  with more than one \<open>=\<close> raises \<open>ValueError\<close>: the code splits at every \<open>=\<close> and
  unpacks the result into two names.
\<close>

theorem Decode_is_amended: "Decode line = Decode_amended line"
proof (cases "line = []")
  case True
  then show ?thesis
    by (simp add: Decode_def parseInput_def and_then_def emit_def Decode_amended_def py_strip_def)
next
  case False
  then show ?thesis
    by (simp add: Decode_def parseInput_def and_then_def parsePairs_amended Decode_amended_def
          split: sum.splits)
qed

text \<open>
  C3 as stated fails: a segment with two \<open>=\<close> is not decoded with everything after
  the first \<open>=\<close> as its value.
\<close>

theorem Decode_two_equals:
  "Decode ''a=b=c'' = Inl ValueError \<and> Decode ''a=b=c'' \<noteq> Inr [(''a'', Scalar ''b=c'')]"
  by (simp add: Decode_def parseInput_def and_then_def py_strip_def isspace_def)



section \<open>Encoding and decoding again\<close>

lemma dropWhile_hd:
  "xs \<noteq> [] \<Longrightarrow> \<not> P (hd xs) \<Longrightarrow> dropWhile P xs = xs"
  by (cases xs) auto

lemma py_strip_id:
  assumes "s \<noteq> []" and "\<not> isspace (hd s)" and "\<not> isspace (last s)"
  shows "py_strip s = s"
proof -
  have "dropWhile isspace s = s"
    using assms by (simp add: dropWhile_hd)
  moreover have "dropWhile isspace (rev s) = rev s"
    using assms by (intro dropWhile_hd) (simp_all add: hd_rev)
  ultimately show ?thesis
    by (simp add: py_strip_def)
qed

lemma Decode_nonempty:
  "d \<noteq> [] \<Longrightarrow> Decode d = parsePairs (py_split CHR '';'' d) (py_split CHR '';'' d) []"
  by (simp add: Decode_def parseInput_def and_then_def split: sum.splits)

lemma set_py_join:
  "set (py_join c xs) \<subseteq> insert c (\<Union> (set ` set xs))"
  by (induction c xs rule: py_join.induct) auto

lemma py_join_Nil_iff: "py_join c xs = [] \<longleftrightarrow> xs = [] \<or> xs = [[]]"
  by (induction c xs rule: py_join.induct) auto

lemma last_py_join:
  "xs \<noteq> [] \<Longrightarrow> last xs \<noteq> [] \<Longrightarrow> last (py_join c xs) = last (last xs)"
  by (induction c xs rule: py_join.induct) (auto simp add: py_join_Nil_iff)

lemma sep_in_py_join:
  "2 \<le> length xs \<Longrightarrow> c \<in> set (py_join c xs)"
  by (induction c xs rule: py_join.induct) auto

lemma py_split_py_join:
  "xs \<noteq> [] \<Longrightarrow> list_all (\<lambda>x. c \<notin> set x) xs \<Longrightarrow> py_split c (py_join c xs) = xs"
  by (induction c xs rule: py_join.induct) (auto simp add: py_split_absent py_split_append)

lemma Encode_concat:
  "foldl (\<lambda>basePair (key, val). appendKeyValuePair basePair key (Some (render val))) b m =
     b @ concat (map (\<lambda>(key, val). key @ ''='' @ render val @ '';'') m)"
  by (induction m arbitrary: b) (auto simp add: appendKeyValuePair_def)

lemma render_ok:
  assumes "value_ok v"
  shows "render v \<noteq> []" and "CHR '';'' \<notin> set (render v)" and "CHR ''='' \<notin> set (render v)"
    and "last (render v) = (case v of Scalar x \<Rightarrow> last x | Listed xs \<Rightarrow> last (last xs))"
    and "(if CHR '','' \<in> set (render v) then Listed (py_split CHR '','' (render v))
          else Scalar (render v)) = v"
proof -
  show "render v \<noteq> []"
  proof (cases v)
    case (Scalar x)
    with assms show ?thesis by (simp add: plain_def)
  next
    case (Listed xs)
    with assms have "xs \<noteq> []" "xs \<noteq> [[]]"
      by (auto simp add: plain_def)
    with Listed show ?thesis by (simp add: py_join_Nil_iff)
  qed
  show "CHR '';'' \<notin> set (render v)"
    using assms set_py_join [of "CHR '',''"]
    by (cases v) (auto simp add: plain_def list_all_iff)
  show "CHR ''='' \<notin> set (render v)"
    using assms set_py_join [of "CHR '',''"]
    by (cases v) (auto simp add: plain_def list_all_iff)
  show "last (render v) = (case v of Scalar x \<Rightarrow> last x | Listed xs \<Rightarrow> last (last xs))"
  proof (cases v)
    case (Scalar x)
    then show ?thesis by simp
  next
    case (Listed xs)
    with assms have ne: "xs \<noteq> []" and "list_all plain xs"
      by auto
    then have "plain (last xs)"
      by (simp add: list_all_iff)
    then have "last xs \<noteq> []"
      by (simp add: plain_def)
    with Listed ne show ?thesis by (simp add: last_py_join)
  qed
  show "(if CHR '','' \<in> set (render v) then Listed (py_split CHR '','' (render v))
          else Scalar (render v)) = v"
  proof (cases v)
    case (Scalar x)
    with assms show ?thesis by (simp add: plain_def)
  next
    case (Listed xs)
    with assms have "xs \<noteq> []" "list_all (\<lambda>x. CHR '','' \<notin> set x) xs" "2 \<le> length xs"
      by (auto simp add: plain_def list_all_iff)
    with Listed show ?thesis
      by (simp add: sep_in_py_join py_split_py_join)
  qed
qed

lemma update_new:
  "k \<notin> fst ` set al \<Longrightarrow> AList.update k v al = al @ [(k, v)]"
  by (induction al) auto

lemma parsePairs_encoded:
  assumes "list_all pair_ok m" and "distinct (map fst m)" and "fst ` set res \<inter> fst ` set m = {}"
  shows "parsePairs kvs (map (\<lambda>(key, val). key @ ''='' @ render val) m @ [[]]) res = Inr (res @ m)"
  using assms
proof (induction m arbitrary: res)
  case Nil
  show ?case by (simp add: py_strip_def)
next
  case (Cons p m)
  obtain k v where p: "p = (k, v)" by (cases p)
  let ?seg = "k @ ''='' @ render v"
  from Cons.prems p have k: "plain k" "\<not> isspace (hd k)" and v: "value_ok v"
    by (simp_all add: pair_ok_def)
  from k have k': "k \<noteq> []" "CHR ''='' \<notin> set k"
    by (simp_all add: plain_def)
  have "hd ?seg = hd k" "last ?seg = last (render v)"
    using k' render_ok(1) [OF v] by simp_all
  moreover have "\<not> isspace (last (render v))"
    using v render_ok(4) [OF v] by (cases v) simp_all
  ultimately have strip: "py_strip ?seg = ?seg"
    using k by (intro py_strip_id) simp_all
  have split: "py_split CHR ''='' ?seg = [k, render v]"
    using py_split_append [of "CHR ''=''" k "render v"] k' render_ok(3) [OF v]
    by (simp add: py_split_absent)
  from Cons.prems p have new: "k \<notin> fst ` set res"
    by auto
  have disj: "fst ` set (res @ [(k, v)]) \<inter> fst ` set m = {}"
    using Cons.prems p by auto
  have "parsePairs kvs (map (\<lambda>(key, val). key @ ''='' @ render val) (p # m) @ [[]]) res =
        parsePairs kvs (map (\<lambda>(key, val). key @ ''='' @ render val) m @ [[]]) (res @ [(k, v)])"
    using strip split render_ok(5) [OF v] by (simp add: p update_new [OF new])
  also have "\<dots> = Inr ((res @ [(k, v)]) @ m)"
    using Cons.prems disj by (intro Cons.IH) simp_all
  finally show ?case by (simp add: p)
qed

lemma py_split_encoded:
  "list_all pair_ok m \<Longrightarrow>
   py_split CHR '';'' (concat (map (\<lambda>(key, val). key @ ''='' @ render val @ '';'') m)) =
     map (\<lambda>(key, val). key @ ''='' @ render val) m @ [[]]"
proof (induction m)
  case Nil
  show ?case by simp
next
  case (Cons p m)
  obtain k v where p: "p = (k, v)" by (cases p)
  from Cons.prems p have "CHR '';'' \<notin> set (k @ ''='' @ render v)"
    using render_ok(2) [of v] by (simp add: pair_ok_def plain_def)
  then have "py_split CHR '';'' ((k @ ''='' @ render v) @ CHR '';'' # concat (map (\<lambda>(key, val). key @ ''='' @ render val @ '';'') m))
      = (k @ ''='' @ render v) # py_split CHR '';'' (concat (map (\<lambda>(key, val). key @ ''='' @ render val @ '';'') m))"
    by (rule py_split_append)
  with Cons show ?case by (simp add: p)
qed

text \<open>
  C5, as amended. For every message whose keys are distinct, whose keys and values
  (every element of a list value included) are non-empty and free of \<open>;\<close>, \<open>=\<close> and
  \<open>,\<close>, whose keys do not begin with whitespace, whose values do not end with
  whitespace, and whose list values have at least two elements, decoding the encoded
  message gives the message back.
\<close>

theorem Decode_Encode:
  assumes "round_trips m"
  shows "Decode (Encode m) = Inr m"
proof (cases "m = []")
  case True
  then show ?thesis
    by (simp add: Decode_def Encode_def parseInput_def and_then_def emit_def)
next
  case False
  let ?line = "concat (map (\<lambda>(key, val). key @ ''='' @ render val @ '';'') m)"
  from assms have ok: "list_all pair_ok m" and d: "distinct (map fst m)"
    by (simp_all add: round_trips_def)
  have e: "Encode m = ?line"
    by (simp add: Encode_def Encode_concat)
  from False have "?line \<noteq> []"
    by (cases m) auto
  then have "Decode ?line = parsePairs (py_split CHR '';'' ?line) (py_split CHR '';'' ?line) []"
    by (rule Decode_nonempty)
  also have "\<dots> = Inr ([] @ m)"
    unfolding py_split_encoded [OF ok]
    by (rule parsePairs_encoded [OF ok d]) simp
  finally show ?thesis by (simp add: e)
qed

text \<open>A start command as the witness.\<close>

theorem Decode_Encode_witness:
  "round_trips [(''action'', Scalar ''start''), (''pid'', Scalar ''job 1''),
                (''args'', Listed [''/tmp/in'', ''/tmp/out''])]
   \<and> Decode (Encode [(''action'', Scalar ''start''), (''pid'', Scalar ''job 1''),
                     (''args'', Listed [''/tmp/in'', ''/tmp/out''])])
     = Inr [(''action'', Scalar ''start''), (''pid'', Scalar ''job 1''),
            (''args'', Listed [''/tmp/in'', ''/tmp/out''])]"
proof -
  have h: "round_trips [(''action'', Scalar ''start''), (''pid'', Scalar ''job 1''),
                (''args'', Listed [''/tmp/in'', ''/tmp/out''])]"
    by (simp add: round_trips_def pair_ok_def plain_def isspace_def)
  from Decode_Encode [OF h] h show ?thesis
    by simp
qed

text \<open>
  C5 as stated fails. A key that begins with a space comes back without it, and a
  list of one element comes back as a string; both messages have non-empty keys and
  values without reserved characters.
\<close>

theorem Decode_Encode_changes_message:
  "Decode (Encode [('' a'', Scalar ''b'')]) = Inr [(''a'', Scalar ''b'')]
   \<and> \<not> dict_eq [(''a'', Scalar ''b'')] [('' a'', Scalar ''b'')]
   \<and> Decode (Encode [(''a'', Listed [''b''])]) = Inr [(''a'', Scalar ''b'')]
   \<and> \<not> dict_eq [(''a'', Scalar ''b'')] [(''a'', Listed [''b''])]"
proof -
  have 1: "Decode (Encode [('' a'', Scalar ''b'')]) = Inr [(''a'', Scalar ''b'')]"
    by (simp add: Decode_def Encode_def appendKeyValuePair_def parseInput_def and_then_def
          py_strip_def isspace_def)
  have 2: "Decode (Encode [(''a'', Listed [''b''])]) = Inr [(''a'', Scalar ''b'')]"
    by (simp add: Decode_def Encode_def appendKeyValuePair_def parseInput_def and_then_def
          py_strip_def isspace_def)
  have 3: "\<not> dict_eq [(''a'', Scalar ''b'')] [('' a'', Scalar ''b'')]"
    by (auto simp add: dict_eq_def dest: fun_cong [where x = "''a''"])
  have 4: "\<not> dict_eq [(''a'', Scalar ''b'')] [(''a'', Listed [''b''])]"
    by (auto simp add: dict_eq_def dest: fun_cong [where x = "''a''"])
  from 1 2 3 4 show ?thesis by simp
qed



section \<open>The worker's run\<close>

text \<open>When no \<open>np.save\<close> raised, every file was written.\<close>

lemma save_files_all:
  "save_files sv fs = (written, None) \<Longrightarrow> written = fs"
  by (induction fs arbitrary: written) (auto split: option.splits prod.splits)

lemma distinct_names:
  "distinct (map (\<lambda>k. os_path_join out_dir (k @ ''.npy''))
     [''c_save'', ''t_save'', ''w_save'', ''v_save'', ''regime_save'', ''PSI_save'',
      ''p_save'', ''mesh_config''])"
  by (simp add: os_path_join_def)

text \<open>
  C2, as amended. For every run of the worker in which nothing is raised, the worker
  saves exactly eight arrays into the output directory, one file \<open><name>.npy\<close> per
  named array: the seven results \<open>c_save\<close>, \<open>t_save\<close>, \<open>w_save\<close>, \<open>v_save\<close>,
  \<open>regime_save\<close>, \<open>PSI_save\<close> and \<open>p_save\<close>, and the record \<open>mesh_config\<close>, which holds
  the three mesh parameters and the elapsed time.
\<close>

lemma run_uncaught:
  assumes "caught (run w t) = None" and p: "params t = (in_dir, out_dir)"
  shows "\<exists>res d. solve w in_dir = Inr res \<and> DATA res (elapsed w) = Inr d
           \<and> saved (run w t) =
               map (\<lambda>(key, data). (os_path_join out_dir (key @ ''.npy''), data)) d"
proof -
  from assms have e: "path_exists w in_dir" "path_exists w out_dir"
    by (auto simp add: run_def split: if_splits)
  show ?thesis
  proof (cases "solve w in_dir")
    case (Inl x)
    with assms e show ?thesis by (simp add: run_def)
  next
    case (Inr res)
    show ?thesis
    proof (cases "DATA res (elapsed w)")
      case (Inl x)
      with assms e Inr show ?thesis by (simp add: run_def)
    next
      case d: (Inr d)
      let ?files = "map (\<lambda>(key, data). (os_path_join out_dir (key @ ''.npy''), data)) d"
      obtain written r where sv: "save_files (np_save w) ?files = (written, r)"
        by (cases "save_files (np_save w) ?files")
      with assms e Inr d have r: "r = None"
        by (cases r) (simp_all add: run_def)
      with sv have "written = ?files"
        by (simp add: save_files_all)
      with assms e Inr d sv r show ?thesis
        by (simp add: run_def)
    qed
  qed
qed

theorem run_saves_eight_arrays:
  assumes "caught (run w t) = None"
  shows "\<exists>res. solve w (fst (params t)) = Inr res \<and> 10 \<le> length res
           \<and> saved (run w t) =
               map (\<lambda>(name, data). (os_path_join (snd (params t)) (name @ ''.npy''), data))
                 [(''c_save'', Array (res ! 0)), (''t_save'', Array (res ! 1)),
                  (''w_save'', Array (res ! 2)), (''v_save'', Array (res ! 3)),
                  (''regime_save'', Array (res ! 4)), (''PSI_save'', Array (res ! 5)),
                  (''p_save'', Array (res ! 6)),
                  (''mesh_config'', MeshConfig (res ! 7) (res ! 8) (res ! 9) (elapsed w))]
           \<and> length (saved (run w t)) = 8
           \<and> distinct (map fst (saved (run w t)))"
proof -
  obtain in_dir out_dir where p: "params t = (in_dir, out_dir)"
    by (cases "params t")
  from run_uncaught [OF assms p] obtain res d
    where r: "solve w in_dir = Inr res" and d: "DATA res (elapsed w) = Inr d"
      and sd: "saved (run w t) =
                 map (\<lambda>(key, data). (os_path_join out_dir (key @ ''.npy''), data)) d"
    by blast
  from d have l10: "10 \<le> length res"
    and dd: "d = [(''c_save'', Array (res ! 0)), (''t_save'', Array (res ! 1)),
                  (''w_save'', Array (res ! 2)), (''v_save'', Array (res ! 3)),
                  (''regime_save'', Array (res ! 4)), (''PSI_save'', Array (res ! 5)),
                  (''p_save'', Array (res ! 6)),
                  (''mesh_config'', MeshConfig (res ! 7) (res ! 8) (res ! 9) (elapsed w))]"
    by (auto simp add: DATA_def split: if_splits)
  have s: "saved (run w t) =
               map (\<lambda>(name, data). (os_path_join out_dir (name @ ''.npy''), data))
                 [(''c_save'', Array (res ! 0)), (''t_save'', Array (res ! 1)),
                  (''w_save'', Array (res ! 2)), (''v_save'', Array (res ! 3)),
                  (''regime_save'', Array (res ! 4)), (''PSI_save'', Array (res ! 5)),
                  (''p_save'', Array (res ! 6)),
                  (''mesh_config'', MeshConfig (res ! 7) (res ! 8) (res ! 9) (elapsed w))]"
    unfolding sd dd ..
  have "map fst (saved (run w t)) =
          map (\<lambda>k. os_path_join out_dir (k @ ''.npy''))
            [''c_save'', ''t_save'', ''w_save'', ''v_save'', ''regime_save'', ''PSI_save'',
             ''p_save'', ''mesh_config'']"
    unfolding s by simp
  then have dist: "distinct (map fst (saved (run w t)))"
    using distinct_names [of out_dir] by simp
  have l: "length (saved (run w t)) = 8"
    unfolding s by simp
  from r l10 s dist l p show ?thesis by simp
qed

text \<open>A run with a solver that returns ten numbers, into \<open>/tmp/out\<close>.\<close>

theorem run_saves_eight_arrays_witness:
  "caught (run \<lparr>path_exists = (\<lambda>p. True), solve = (\<lambda>p. Inr [0, 1, 2, 3, 4, 5, 6, 7, 8, 9 :: int]),
                 elapsed = 42, format = (\<lambda>v. ''42.0''),
                 np_save = (\<lambda>f. None), str_of_dict = (\<lambda>d. ''{}'')\<rparr>
              \<lparr>wid = 0, wpid = ''job1'', params = (''/tmp/in'', ''/tmp/out'')\<rparr>) = None
   \<and> map fst (saved (run \<lparr>path_exists = (\<lambda>p. True),
                           solve = (\<lambda>p. Inr [0, 1, 2, 3, 4, 5, 6, 7, 8, 9 :: int]),
                           elapsed = 42, format = (\<lambda>v. ''42.0''),
                 np_save = (\<lambda>f. None), str_of_dict = (\<lambda>d. ''{}'')\<rparr>
                        \<lparr>wid = 0, wpid = ''job1'', params = (''/tmp/in'', ''/tmp/out'')\<rparr>))
       = [''/tmp/out/c_save.npy'', ''/tmp/out/t_save.npy'', ''/tmp/out/w_save.npy'',
          ''/tmp/out/v_save.npy'', ''/tmp/out/regime_save.npy'', ''/tmp/out/PSI_save.npy'',
          ''/tmp/out/p_save.npy'', ''/tmp/out/mesh_config.npy'']"
proof -
  let ?w = "\<lparr>path_exists = (\<lambda>p. True), solve = (\<lambda>p. Inr [0, 1, 2, 3, 4, 5, 6, 7, 8, 9 :: int]),
             elapsed = 42, format = (\<lambda>v. ''42.0''),
                 np_save = (\<lambda>f. None), str_of_dict = (\<lambda>d. ''{}'')\<rparr>"
  let ?t = "\<lparr>wid = 0, wpid = ''job1'', params = (''/tmp/in'', ''/tmp/out'')\<rparr>"
  have h: "caught (run ?w ?t) = None"
    by (simp add: run_def DATA_def)
  from run_saves_eight_arrays [OF h] h show ?thesis
    by (auto simp add: os_path_join_def)
qed

text \<open>C2 as stated fails: the same run saves eight arrays, not seven.\<close>

theorem run_saves_eight_not_seven:
  "caught (run \<lparr>path_exists = (\<lambda>p. True), solve = (\<lambda>p. Inr [0, 1, 2, 3, 4, 5, 6, 7, 8, 9 :: int]),
                 elapsed = 42, format = (\<lambda>v. ''42.0''),
                 np_save = (\<lambda>f. None), str_of_dict = (\<lambda>d. ''{}'')\<rparr>
              \<lparr>wid = 0, wpid = ''job1'', params = (''/tmp/in'', ''/tmp/out'')\<rparr>) = None
   \<and> length (saved (run \<lparr>path_exists = (\<lambda>p. True),
                          solve = (\<lambda>p. Inr [0, 1, 2, 3, 4, 5, 6, 7, 8, 9 :: int]),
                          elapsed = 42, format = (\<lambda>v. ''42.0''),
                 np_save = (\<lambda>f. None), str_of_dict = (\<lambda>d. ''{}'')\<rparr>
                       \<lparr>wid = 0, wpid = ''job1'', params = (''/tmp/in'', ''/tmp/out'')\<rparr>)) \<noteq> 7"
  by (simp add: run_def DATA_def)



section \<open>The registry\<close>

text \<open>What the operations do to each attribute of the process.\<close>

lemma logData_fields [simp]:
  "threads (logData f tx l p s) = threads s"
  "objects (logData f tx l p s) = objects s"
  "isActive (logData f tx l p s) = isActive s"
  "history (logData f tx l p s) =
     history s @ [Write (status_line f tx l p @ [CHR 0x0A]),
                  Emit sent [PStr (status_line f tx l p @ [CHR 0x0A])]]"
  by (simp_all add: logData_def send_def effect_def)

lemma delete_absent:
  "map_of al k = None \<Longrightarrow> AList.delete k al = al"
  by (induction al) (auto simp add: AList.delete_eq split: if_splits)

lemma killThread_fields [simp]:
  "threads (killThread tid s) = AList.delete tid (threads s)"
  "objects (killThread tid s) = objects s"
  "isActive (killThread tid s) = isActive s"
  by (simp_all add: killThread_def delete_absent split: option.splits)

lemma handleThreadFinished_fields [simp]:
  "threads (handleThreadFinished pid s) = AList.delete (Some pid) (threads s)"
  "objects (handleThreadFinished pid s) = objects s"
  "isActive (handleThreadFinished pid s) = isActive s"
  by (simp_all add: handleThreadFinished_def Let_def delete_absent split: option.splits)

lemma handleThreadError_fields [simp]:
  "threads (snd (handleThreadError (pid, e) s)) = AList.delete (Some pid) (threads s)"
  "objects (snd (handleThreadError (pid, e) s)) = objects s"
  "isActive (snd (handleThreadError (pid, e) s)) = isActive s"
  by (simp_all add: handleThreadError_def delete_absent split: option.splits)

lemma handleThreadError_raises:
  "fst (handleThreadError (pid, e) s) =
     (case map_of (threads s) (Some pid) of None \<Rightarrow> KeyError pid | Some t \<Rightarrow> Reraised e)"
  by (simp add: handleThreadError_def split: option.splits)

lemma spawnThread_threads:
  "threads (snd (spawnThread w uuid tid args s)) =
     (case caught (run w (JuliaWorkerThread (objects s) uuid args tid)) of
        None \<Rightarrow> AList.update tid (JuliaWorkerThread (objects s) uuid args tid)
                  (AList.delete tid (threads s))
      | Some e \<Rightarrow> AList.delete (Some (wpid (JuliaWorkerThread (objects s) uuid args tid)))
                   (AList.update tid (JuliaWorkerThread (objects s) uuid args tid)
                      (AList.delete tid (threads s))))"
  by (simp add: spawnThread_def Let_def split_beta delete_absent map_of_eq_None_iff
        split: option.splits)

lemma spawnThread_objects [simp]:
  "objects (snd (spawnThread w uuid tid args s)) = Suc (objects s)"
  by (simp add: spawnThread_def Let_def split_beta split: option.splits)

lemma spawnThread_raises:
  "fst (spawnThread w uuid tid args s) =
     (case caught (run w (JuliaWorkerThread (objects s) uuid args tid)) of
        None \<Rightarrow> None
      | Some e \<Rightarrow>
          Some (case map_of (AList.update tid (JuliaWorkerThread (objects s) uuid args tid)
                              (AList.delete tid (threads s)))
                       (Some (wpid (JuliaWorkerThread (objects s) uuid args tid))) of
                  None \<Rightarrow> KeyError (wpid (JuliaWorkerThread (objects s) uuid args tid))
                | Some t \<Rightarrow> Reraised e))"
  by (simp add: spawnThread_def Let_def split_beta delete_absent map_of_eq_None_iff
        handleThreadError_raises split: option.splits)
















lemma start_command_missing_path:
  assumes "map_of data ''action'' = Some (Scalar ''start'')"
    and "map_of data ''args'' = Some (Listed [in_dir, out_dir])"
    and "\<not> path_exists w in_dir \<or> \<not> path_exists w out_dir"
  shows "\<exists>text. fst (handleListenerInput w uuid data s) = Some (Exception text)"
    and "threads (snd (handleListenerInput w uuid data s)) = threads s"
    and "objects (snd (handleListenerInput w uuid data s)) = objects s"
  using assms
  by (auto simp add: handleListenerInput_def Let_def subscript_def)

text \<open>
  C8. For every kill command whose id is not a key of the registry, \<open>__killThread\<close>
  sends exactly one status line, the warning, and changes nothing else: the registry
  is as before. No statement on this path can raise, and the model of
  \<open>__killThread\<close> has no exception to return.
\<close>

theorem kill_unregistered_warns_once:
  assumes "thread_id \<notin> set (map fst (threads s))"
  shows "killThread thread_id s =
           s\<lparr>history := history s @
                [Write (''failed=false;text=[WARNING] Thread with id '' @ [CHR 0x27]
                          @ format_id thread_id @ [CHR 0x27] @ '', does not exists;log=true;pid=''
                          @ (case thread_id of None \<Rightarrow> ''none'' | Some p \<Rightarrow> p) @ '';''
                          @ [CHR 0x0A]),
                 Emit sent
                   [PStr (''failed=false;text=[WARNING] Thread with id '' @ [CHR 0x27]
                            @ format_id thread_id @ [CHR 0x27] @ '', does not exists;log=true;pid=''
                            @ (case thread_id of None \<Rightarrow> ''none'' | Some p \<Rightarrow> p) @ '';''
                            @ [CHR 0x0A])]]\<rparr>
         \<and> threads (killThread thread_id s) = threads s"
proof -
  from assms have n: "map_of (threads s) thread_id = None"
    by (simp add: map_of_eq_None_iff)
  have k: "killThread thread_id s =
             logData False
               (Some (''[WARNING] Thread with id '' @ [CHR 0x27] @ format_id thread_id @ [CHR 0x27]
                        @ '', does not exists''))
               True thread_id s"
    by (simp add: killThread_def n)
  show ?thesis
    unfolding k
    by (simp add: logData_def send_def effect_def status_line_def appendKeyValuePair_def
          str_lower_bool_def)
qed

text \<open>Killing \<open>job9\<close> when nothing is registered.\<close>

theorem kill_unregistered_warns_once_witness:
  "Some ''job9'' \<notin> set (map fst (threads \<lparr>isActive = True, threads = [], objects = 0, history = []\<rparr>))
   \<and> killThread (Some ''job9'') \<lparr>isActive = True, threads = [], objects = 0, history = []\<rparr> =
       \<lparr>isActive = True, threads = [], objects = 0,
          history =
            [Write (''failed=false;text=[WARNING] Thread with id '' @ [CHR 0x27] @ ''job9''
                      @ [CHR 0x27] @ '', does not exists;log=true;pid=job9;'' @ [CHR 0x0A]),
             Emit sent
               [PStr (''failed=false;text=[WARNING] Thread with id '' @ [CHR 0x27] @ ''job9''
                        @ [CHR 0x27] @ '', does not exists;log=true;pid=job9;'' @ [CHR 0x0A])]]\<rparr>"
proof -
  have h: "Some ''job9'' \<notin> set (map fst (threads \<lparr>isActive = True, threads = [], objects = 0, history = []\<rparr>))"
    by simp
  from kill_unregistered_warns_once [OF h] h show ?thesis
    by (simp add: format_id_def)
qed

text \<open>
  C9, as amended. For every job id: a second delivery of the finished event leaves
  the registry as the first left it and only sends the status line again, with no
  second release and nothing raised; and after the first delivery the id is not a
  key. The first delivery removes the job and releases its handle once
  (\<open>deleteLater\<close>) when the id is a key of the registry, and changes nothing but the
  status line when it is not.
\<close>

theorem finished_removes_once:
  "threads (handleThreadFinished pid (handleThreadFinished pid s))
     = threads (handleThreadFinished pid s)
   \<and> history (handleThreadFinished pid (handleThreadFinished pid s)) =
       history (handleThreadFinished pid s) @
         [Write (status_line False (Some (''thread with pid: <'' @ pid @ ''> finished successfully''))
                   True (Some pid) @ [CHR 0x0A]),
          Emit sent
            [PStr (status_line False (Some (''thread with pid: <'' @ pid @ ''> finished successfully''))
                     True (Some pid) @ [CHR 0x0A])]]
   \<and> map_of (threads (handleThreadFinished pid s)) (Some pid) = None
   \<and> (map_of (threads s) (Some pid) = Some t \<longrightarrow>
        threads (handleThreadFinished pid s) = AList.delete (Some pid) (threads s)
        \<and> history (handleThreadFinished pid s) =
            history s @
              [Write (status_line False (Some (''thread with pid: <'' @ pid @ ''> finished successfully''))
                        True (Some pid) @ [CHR 0x0A]),
               Emit sent
                 [PStr (status_line False (Some (''thread with pid: <'' @ pid @ ''> finished successfully''))
                          True (Some pid) @ [CHR 0x0A])],
               DeleteLater (wid t)])
   \<and> (map_of (threads s) (Some pid) = None \<longrightarrow>
        threads (handleThreadFinished pid s) = threads s
        \<and> history (handleThreadFinished pid s) =
            history s @
              [Write (status_line False (Some (''thread with pid: <'' @ pid @ ''> finished successfully''))
                        True (Some pid) @ [CHR 0x0A]),
               Emit sent
                 [PStr (status_line False (Some (''thread with pid: <'' @ pid @ ''> finished successfully''))
                          True (Some pid) @ [CHR 0x0A])]])"
proof -
  have gone: "map_of (threads (handleThreadFinished pid s)) (Some pid) = None"
    by (simp add: delete_conv')
  have absent: "\<And>u. map_of (threads u) (Some pid) = None \<Longrightarrow>
      handleThreadFinished pid u =
        logData False (Some (''thread with pid: <'' @ pid @ ''> finished successfully''))
          True (Some pid) u"
    by (simp add: handleThreadFinished_def Let_def)
  have present: "map_of (threads s) (Some pid) = Some t \<Longrightarrow>
      handleThreadFinished pid s =
        effect (DeleteLater (wid t))
          ((logData False (Some (''thread with pid: <'' @ pid @ ''> finished successfully''))
              True (Some pid) s)\<lparr>threads := AList.delete (Some pid) (threads s)\<rparr>)"
    by (simp add: handleThreadFinished_def Let_def)
  have second: "history (handleThreadFinished pid (handleThreadFinished pid s)) =
       history (handleThreadFinished pid s) @
         [Write (status_line False (Some (''thread with pid: <'' @ pid @ ''> finished successfully''))
                   True (Some pid) @ [CHR 0x0A]),
          Emit sent
            [PStr (status_line False (Some (''thread with pid: <'' @ pid @ ''> finished successfully''))
                     True (Some pid) @ [CHR 0x0A])]]"
    by (subst absent [OF gone]) simp
  have same: "threads (handleThreadFinished pid (handleThreadFinished pid s))
     = threads (handleThreadFinished pid s)"
    by (subst absent [OF gone]) simp
  have first: "map_of (threads s) (Some pid) = Some t \<longrightarrow>
        threads (handleThreadFinished pid s) = AList.delete (Some pid) (threads s)
        \<and> history (handleThreadFinished pid s) =
            history s @
              [Write (status_line False (Some (''thread with pid: <'' @ pid @ ''> finished successfully''))
                        True (Some pid) @ [CHR 0x0A]),
               Emit sent
                 [PStr (status_line False (Some (''thread with pid: <'' @ pid @ ''> finished successfully''))
                          True (Some pid) @ [CHR 0x0A])],
               DeleteLater (wid t)]"
    by (simp add: present)
  have none: "map_of (threads s) (Some pid) = None \<longrightarrow>
        threads (handleThreadFinished pid s) = threads s
        \<and> history (handleThreadFinished pid s) =
            history s @
              [Write (status_line False (Some (''thread with pid: <'' @ pid @ ''> finished successfully''))
                        True (Some pid) @ [CHR 0x0A]),
               Emit sent
                 [PStr (status_line False (Some (''thread with pid: <'' @ pid @ ''> finished successfully''))
                          True (Some pid) @ [CHR 0x0A])]]"
    by (simp add: absent)
  from same second gone first none show ?thesis
    by blast
qed

text \<open>The finished event of \<open>job1\<close>, delivered twice.\<close>

theorem finished_removes_once_witness:
  "map_of (threads \<lparr>isActive = True,
                     threads = [(Some ''job1'', \<lparr>wid = 0, wpid = ''job1'', params = (''/in'', ''/out'')\<rparr>)],
                     objects = 1, history = []\<rparr>) (Some ''job1'')
     = Some \<lparr>wid = 0, wpid = ''job1'', params = (''/in'', ''/out'')\<rparr>
   \<and> threads (handleThreadFinished ''job1''
         \<lparr>isActive = True,
            threads = [(Some ''job1'', \<lparr>wid = 0, wpid = ''job1'', params = (''/in'', ''/out'')\<rparr>)],
            objects = 1, history = []\<rparr>) = []
   \<and> threads (handleThreadFinished ''job1'' (handleThreadFinished ''job1''
         \<lparr>isActive = True,
            threads = [(Some ''job1'', \<lparr>wid = 0, wpid = ''job1'', params = (''/in'', ''/out'')\<rparr>)],
            objects = 1, history = []\<rparr>)) = []"
proof -
  let ?t = "\<lparr>wid = 0, wpid = ''job1'', params = (''/in'', ''/out'')\<rparr>"
  let ?s = "\<lparr>isActive = True, threads = [(Some ''job1'', ?t)], objects = 1, history = []\<rparr>"
  have h: "map_of (threads ?s) (Some ''job1'') = Some ?t"
    by simp
  from finished_removes_once [of "''job1''" ?s ?t] h show ?thesis
    by (simp add: AList.delete_eq)
qed

text \<open>
  C9 as stated fails for a job started without a pid: it is registered under \<open>None\<close>,
  its finished event carries the generated id, and the delivery removes nothing and
  releases nothing.
\<close>

theorem finished_of_job_without_pid:
  "handleFinished \<lparr>wid = 0, wpid = ''6f1c'', params = (''/in'', ''/out'')\<rparr> = ''6f1c''
   \<and> threads (snd (spawnThread
        \<lparr>path_exists = (\<lambda>p. True), solve = (\<lambda>p. Inr [0, 1, 2, 3, 4, 5, 6, 7, 8, 9 :: int]),
        elapsed = 42, format = (\<lambda>v. ''42.0''),
        np_save = (\<lambda>f. None), str_of_dict = (\<lambda>d. ''{}'')\<rparr>
        ''6f1c'' None (''/in'', ''/out'')
                     \<lparr>isActive = True, threads = [], objects = 0, history = []\<rparr>))
       = [(None, \<lparr>wid = 0, wpid = ''6f1c'', params = (''/in'', ''/out'')\<rparr>)]
   \<and> threads (handleThreadFinished ''6f1c''
         (snd (spawnThread
        \<lparr>path_exists = (\<lambda>p. True), solve = (\<lambda>p. Inr [0, 1, 2, 3, 4, 5, 6, 7, 8, 9 :: int]),
        elapsed = 42, format = (\<lambda>v. ''42.0''),
        np_save = (\<lambda>f. None), str_of_dict = (\<lambda>d. ''{}'')\<rparr>
        ''6f1c'' None (''/in'', ''/out'')
                 \<lparr>isActive = True, threads = [], objects = 0, history = []\<rparr>)))
       = [(None, \<lparr>wid = 0, wpid = ''6f1c'', params = (''/in'', ''/out'')\<rparr>)]
   \<and> DeleteLater 0 \<notin> set (history (handleThreadFinished ''6f1c''
         (snd (spawnThread
        \<lparr>path_exists = (\<lambda>p. True), solve = (\<lambda>p. Inr [0, 1, 2, 3, 4, 5, 6, 7, 8, 9 :: int]),
        elapsed = 42, format = (\<lambda>v. ''42.0''),
        np_save = (\<lambda>f. None), str_of_dict = (\<lambda>d. ''{}'')\<rparr>
        ''6f1c'' None (''/in'', ''/out'')
                 \<lparr>isActive = True, threads = [], objects = 0, history = []\<rparr>))))"
proof -
  let ?w = "\<lparr>path_exists = (\<lambda>p. True), solve = (\<lambda>p. Inr [0, 1, 2, 3, 4, 5, 6, 7, 8, 9 :: int]),
        elapsed = 42, format = (\<lambda>v. ''42.0''),
        np_save = (\<lambda>f. None), str_of_dict = (\<lambda>d. ''{}'')\<rparr>"
  let ?s = "\<lparr>isActive = True, threads = [], objects = 0, history = []\<rparr>"
  let ?t = "\<lparr>wid = 0, wpid = ''6f1c'', params = (''/in'', ''/out'')\<rparr>"
  have c: "caught (run ?w ?t) = None"
    by (simp add: run_def DATA_def)
  have a: "list_all (\<lambda>a. case a of Print p x \<Rightarrow> True | Save f \<Rightarrow> True | _ \<Rightarrow> False) (acts (run ?w ?t))"
    by (simp add: run_def DATA_def)
  have th: "threads (snd (spawnThread ?w ''6f1c'' None (''/in'', ''/out'') ?s)) = [(None, ?t)]"
    by (simp add: spawnThread_threads c JuliaWorkerThread_def AList.delete_eq)
  have hi: "history (snd (spawnThread ?w ''6f1c'' None (''/in'', ''/out'') ?s)) =
              [Write (status_line False (Some ''[ACTION] Spawning Thread'') True None @ [CHR 0x0A]),
               Emit sent [PStr (status_line False (Some ''[ACTION] Spawning Thread'') True None @ [CHR 0x0A])]]
              @ acts (run ?w ?t)"
    using c by (simp add: spawnThread_def Let_def JuliaWorkerThread_def)
  have d: "DeleteLater 0 \<notin> set (acts (run ?w ?t))"
    using a by (auto simp add: list_all_iff)
  have f: "handleThreadFinished ''6f1c'' (snd (spawnThread ?w ''6f1c'' None (''/in'', ''/out'') ?s)) =
             logData False (Some (''thread with pid: <'' @ ''6f1c'' @ ''> finished successfully''))
               True (Some ''6f1c'') (snd (spawnThread ?w ''6f1c'' None (''/in'', ''/out'') ?s))"
    by (simp add: handleThreadFinished_def [of _ "snd (spawnThread ?w ''6f1c'' None (''/in'', ''/out'') ?s)"]
          Let_def th)
  show ?thesis
    using d by (simp add: f th hi handleFinished_def)
qed



text \<open>Whatever \<open>run\<close> prints is tagged with the worker's pid.\<close>

lemma run_prints_pid:
  "list_all (\<lambda>a. case a of Print p x \<Rightarrow> p = wpid t | _ \<Rightarrow> True) (acts (run w t))"
  by (cases "params t")
     (auto simp add: run_def Let_def list_all_iff
        split: sum.splits prod.splits option.splits)

text \<open>
  C10. For every start command without a pid, where the id the worker generates is
  not a key of the registry: the worker's pid is the generated id, and its started
  and finished signals, its prints and its error tuple carry that id; the worker is
  registered under the key \<open>None\<close>; a finished event with the generated id leaves
  the registry as it is, so the entry under \<open>None\<close> stays; and the error handler,
  given the generated id, raises \<open>KeyError\<close> at its \<open>pop\<close>. This is also what
  happens inside \<open>__spawnThread\<close> when the run raises.
\<close>

theorem spawn_without_pid:
  assumes fresh: "Some uuid \<notin> set (map fst (threads s))"
  shows "wpid (JuliaWorkerThread (objects s) uuid args None) = uuid
       \<and> handleStarted (JuliaWorkerThread (objects s) uuid args None) = uuid
       \<and> handleFinished (JuliaWorkerThread (objects s) uuid args None) = uuid
       \<and> list_all (\<lambda>a. case a of Print p x \<Rightarrow> p = uuid | _ \<Rightarrow> True)
            (acts (run w (JuliaWorkerThread (objects s) uuid args None)))
       \<and> map_of (threads (snd (spawnThread w uuid None args s))) None
           = Some (JuliaWorkerThread (objects s) uuid args None)
       \<and> threads (handleThreadFinished uuid (snd (spawnThread w uuid None args s)))
           = threads (snd (spawnThread w uuid None args s))
       \<and> fst (handleThreadError (uuid, e) (snd (spawnThread w uuid None args s))) = KeyError uuid
       \<and> fst (spawnThread w uuid None args s) =
            (case caught (run w (JuliaWorkerThread (objects s) uuid args None)) of
               None \<Rightarrow> None | Some x \<Rightarrow> Some (KeyError uuid))"
proof -
  let ?new = "JuliaWorkerThread (objects s) uuid args None"
  let ?reg = "AList.update None ?new (AList.delete None (threads s))"
  from fresh have f: "map_of (threads s) (Some uuid) = None"
    by (simp add: map_of_eq_None_iff)
  have p: "wpid ?new = uuid"
    by (simp add: JuliaWorkerThread_def)
  have r: "map_of ?reg (Some uuid) = None"
    using f by (simp add: update_conv' delete_conv')
  have t: "threads (snd (spawnThread w uuid None args s)) = ?reg"
    using r by (simp add: spawnThread_threads p delete_absent split: option.splits)
  have x: "fst (spawnThread w uuid None args s) =
             (case caught (run w ?new) of None \<Rightarrow> None | Some x \<Rightarrow> Some (KeyError uuid))"
    using r by (simp add: spawnThread_raises p split: option.splits)
  have pr: "list_all (\<lambda>a. case a of Print p x \<Rightarrow> p = uuid | _ \<Rightarrow> True) (acts (run w ?new))"
    using run_prints_pid [of ?new w] unfolding p .
  show ?thesis
    using r x pr by (simp add: t p handleStarted_def handleFinished_def handleThreadError_raises
                       delete_absent update_conv')
qed

text \<open>A start command without a pid whose solver fails.\<close>

theorem spawn_without_pid_witness:
  "Some ''6f1c'' \<notin> set (map fst (threads \<lparr>isActive = True, threads = [], objects = 0, history = []\<rparr>))
   \<and> threads (snd (spawnThread
        \<lparr>path_exists = (\<lambda>p. True), solve = (\<lambda>p. Inl (Exception ''solver failed'')),
           elapsed = (0 :: int), format = (\<lambda>v. ''0.0''),
           np_save = (\<lambda>f. None), str_of_dict = (\<lambda>d. ''{}'')\<rparr>
        ''6f1c'' None (''/in'', ''/out'')
        \<lparr>isActive = True, threads = [], objects = 0, history = []\<rparr>))
      = [(None, \<lparr>wid = 0, wpid = ''6f1c'', params = (''/in'', ''/out'')\<rparr>)]
   \<and> fst (spawnThread
        \<lparr>path_exists = (\<lambda>p. True), solve = (\<lambda>p. Inl (Exception ''solver failed'')),
           elapsed = (0 :: int), format = (\<lambda>v. ''0.0''),
           np_save = (\<lambda>f. None), str_of_dict = (\<lambda>d. ''{}'')\<rparr>
        ''6f1c'' None (''/in'', ''/out'')
        \<lparr>isActive = True, threads = [], objects = 0, history = []\<rparr>)
      = Some (KeyError ''6f1c'')"
proof -
  let ?w = "\<lparr>path_exists = (\<lambda>p. True), solve = (\<lambda>p. Inl (Exception ''solver failed'')),
             elapsed = (0 :: int), format = (\<lambda>v. ''0.0''),
           np_save = (\<lambda>f. None), str_of_dict = (\<lambda>d. ''{}'')\<rparr>"
  let ?s = "\<lparr>isActive = True, threads = [], objects = 0, history = []\<rparr>"
  have h: "Some ''6f1c'' \<notin> set (map fst (threads ?s))"
    by simp
  have c: "\<And>t. caught (run ?w t) = Some (Exception ''solver failed'')"
    by (simp add: run_def split: prod.splits)
  have th: "threads (snd (spawnThread ?w ''6f1c'' None (''/in'', ''/out'') ?s))
              = [(None, \<lparr>wid = 0, wpid = ''6f1c'', params = (''/in'', ''/out'')\<rparr>)]"
    by (simp add: spawnThread_threads c JuliaWorkerThread_def AList.delete_eq)
  from spawn_without_pid [OF h, of "(''/in'', ''/out'')" ?w] h th show ?thesis
    by (simp add: c)
qed

end
